theory Spec2Isabelle
  imports Main "HOL-Library.AList"
begin

section \<open>Run-time values of the configuration interface\<close>

text \<open>
  \<open>setConfig\<close> takes a \<open>Partial<LogConfig>\<close>, and \<open>validateConfig\<close> inspects it with
  \<open>typeof\<close>, \<open>Array.isArray\<close> and property reads, so the argument is modelled as a
  run-time value. A property key is either an array index or a name that is not an
  index. An object is the list of its own enumerable properties, read like an object
  literal: a later entry for a key overrides an earlier one. An array is its elements
  together with the further named properties it owns (an array is an object and can
  carry them, as in \<open>Object.assign([], {devMode: false})\<close>). Numbers are restricted to
  integers; callable values, symbols and accessor properties are left out.
\<close>

datatype key = Idx nat | Name string

datatype jsval =
    JUndefined
  | JNull
  | JBool bool
  | JNum int
  | JStr string
  | JObj "(key \<times> jsval) list"
  | JArr "jsval list" "(key \<times> jsval) list"

type_synonym props = "(key \<times> jsval) list"

datatype error = TypeError | InvalidConfig

text \<open>\<open>typeof v === 'boolean'\<close>, \<open>typeof v === 'string'\<close>, \<open>Array.isArray(v)\<close> and the
  truth value of \<open>v\<close> in a condition.\<close>

fun is_boolean :: "jsval \<Rightarrow> bool" where
  "is_boolean (JBool b) = True"
| "is_boolean v = False"

fun is_string :: "jsval \<Rightarrow> bool" where
  "is_string (JStr s) = True"
| "is_string v = False"

fun isArray :: "jsval \<Rightarrow> bool" where
  "isArray (JArr xs ps) = True"
| "isArray v = False"

fun truthy :: "jsval \<Rightarrow> bool" where
  "truthy JUndefined = False"
| "truthy JNull = False"
| "truthy (JBool b) = b"
| "truthy (JNum n) = (n \<noteq> 0)"
| "truthy (JStr s) = (s \<noteq> [])"
| "truthy (JObj ps) = True"
| "truthy (JArr xs ps) = True"

text \<open>The own enumerable properties of a value, in the order an object spread
  \<open>{...v}\<close> copies them: nothing for \<open>undefined\<close>, \<open>null\<close>, booleans and numbers, the
  characters of a string, the elements of an array followed by its named properties.\<close>

fun own_props :: "jsval \<Rightarrow> props" where
  "own_props (JObj ps) = ps"
| "own_props (JArr xs ps) = zip (map Idx [0..<length xs]) xs @ ps"
| "own_props (JStr s) = zip (map Idx [0..<length s]) (map (\<lambda>c. JStr [c]) s)"
| "own_props v = []"

text \<open>Reading property \<open>k\<close> of a property list; a missing property reads as
  \<open>undefined\<close>.\<close>

definition field :: "props \<Rightarrow> key \<Rightarrow> jsval" where
  "field ps k = (case map_of (rev ps) k of Some v \<Rightarrow> v | None \<Rightarrow> JUndefined)"

text \<open>\<open>v.k\<close>: a \<open>TypeError\<close> on \<open>undefined\<close> and \<open>null\<close>; \<open>length\<close> of arrays and strings
  is not enumerable but readable; inherited methods are not values of this model.\<close>

fun get_prop :: "jsval \<Rightarrow> key \<Rightarrow> error + jsval" where
  "get_prop JUndefined k = Inl TypeError"
| "get_prop JNull k = Inl TypeError"
| "get_prop (JArr xs ps) k =
     (if k = Name ''length'' then Inr (JNum (int (length xs)))
      else Inr (field (own_props (JArr xs ps)) k))"
| "get_prop (JStr s) k =
     (if k = Name ''length'' then Inr (JNum (int (length s)))
      else Inr (field (own_props (JStr s)) k))"
| "get_prop v k = Inr (field (own_props v) k)"

text \<open>Object spread: \<open>{...acc, ...v}\<close> assigns the own enumerable properties of \<open>v\<close> one
  after the other; an assignment to an existing key keeps the key's position. (An engine
  lists index keys first; no property read depends on the order.)\<close>

definition spread :: "props \<Rightarrow> props \<Rightarrow> props" where
  "spread acc ps = fold (\<lambda>(k, v). AList.update k v) ps acc"

text \<open>Array spread \<open>[...v]\<close>: the elements of an array, the characters of a string, a
  \<open>TypeError\<close> for a value that is not iterable.\<close>

fun iterate :: "jsval \<Rightarrow> error + jsval list" where
  "iterate (JArr xs ps) = Inr xs"
| "iterate (JStr s) = Inr (map (\<lambda>c. JStr [c]) s)"
| "iterate v = Inl TypeError"

text \<open>\<open>a !== b\<close> is decided on primitives by value. Objects and arrays are compared by
  identity, which values do not carry: two of them count as different here. The store
  never holds one at \<open>logMode\<close>, where the comparison is made.\<close>

fun strict_eq :: "jsval \<Rightarrow> jsval \<Rightarrow> bool" where
  "strict_eq (JObj ps) b = False"
| "strict_eq (JArr xs ps) b = False"
| "strict_eq a b = (a = b)"

section \<open>types/log-level.type.ts\<close>

definition LogLevel :: "string list" where
  "LogLevel = [''debug'', ''info'', ''warn'', ''error'']"

text \<open>\<open>LogLevel.indexOf(logLevel) !== -1\<close>: \<open>indexOf\<close> compares strictly, so only a string
  is found.\<close>

fun isValidLogLevel :: "jsval \<Rightarrow> bool" where
  "isValidLogLevel (JStr s) = (s \<in> set LogLevel)"
| "isValidLogLevel v = False"

section \<open>shared/default-config.ts\<close>

definition DEFAULT_CONFIG :: props where
  "DEFAULT_CONFIG =
     [(Name ''devMode'', JBool True),
      (Name ''logMode'', JStr ''single''),
      (Name ''endpoint'', JStr ''http://default-endpoint.com'')]"

section \<open>services/config.service.ts\<close>

text \<open>The callback of \<open>every\<close> destructures its element, which throws on \<open>undefined\<close>
  and \<open>null\<close>.\<close>

definition valid_param :: "jsval \<Rightarrow> error + bool" where
  "valid_param x =
     (case get_prop x (Name ''logLevel'') of
        Inl e \<Rightarrow> Inl e
      | Inr logLevel \<Rightarrow>
          (case get_prop x (Name ''endpoint'') of
             Inl e \<Rightarrow> Inl e
           | Inr endpoint \<Rightarrow> Inr (isValidLogLevel logLevel \<and> is_string endpoint)))"

text \<open>\<open>Array.prototype.every\<close> stops at the first element the callback rejects.\<close>

fun every_param :: "jsval list \<Rightarrow> error + bool" where
  "every_param [] = Inr True"
| "every_param (x # xs) =
     (case valid_param x of
        Inl e \<Rightarrow> Inl e
      | Inr b \<Rightarrow> if b then every_param xs else Inr False)"

text \<open>\<open>cfg.endpointParams.every(...)\<close>: only an array has the method, and an own
  property of that name would hide it behind a value that cannot be called.\<close>

fun every_of :: "jsval \<Rightarrow> error + bool" where
  "every_of (JArr xs ps) =
     (if Name ''every'' \<in> set (map fst ps) then Inl TypeError else every_param xs)"
| "every_of v = Inl TypeError"

definition validateConfig :: "jsval \<Rightarrow> error + bool" where
  "validateConfig config =
     (case get_prop config (Name ''devMode'') of
        Inl e \<Rightarrow> Inl e
      | Inr devMode \<Rightarrow>
          if \<not> is_boolean devMode then Inr False
          else
            (case get_prop config (Name ''logMode'') of
               Inl e \<Rightarrow> Inl e
             | Inr logMode \<Rightarrow>
                 if \<not> is_string logMode
                    \<or> logMode \<notin> set [JStr ''single'', JStr ''multiple'']
                 then Inr False
                 else if logMode = JStr ''single'' then
                   (case get_prop config (Name ''endpoint'') of
                      Inl e \<Rightarrow> Inl e
                    | Inr endpoint \<Rightarrow> Inr (is_string endpoint))
                 else if \<not> isArray config then Inr False
                 else
                   (case get_prop config (Name ''endpointParams'') of
                      Inl e \<Rightarrow> Inl e
                    | Inr endpointParams \<Rightarrow> every_of endpointParams)))"

text \<open>\<open>x || d\<close>.\<close>

definition or_else :: "jsval \<Rightarrow> jsval \<Rightarrow> jsval" where
  "or_else x d = (if truthy x then x else d)"

text \<open>\<open>mergeConfig\<close>: both returns build \<open>{...existingConfig, ...newConfig, ...extra}\<close>;
  \<open>extra\<close> is the reset endpoint field when \<open>logMode\<close> changes, the concatenated
  \<open>endpointParams\<close> when the existing mode is \<open>'multiple'\<close> and the new one is not
  \<open>'single'\<close>, and empty otherwise.\<close>

definition mergeConfig :: "props \<Rightarrow> jsval \<Rightarrow> error + props" where
  "mergeConfig existingConfig newConfig =
     (case get_prop newConfig (Name ''logMode'') of
        Inl e \<Rightarrow> Inl e
      | Inr logMode \<Rightarrow>
          if truthy logMode \<and> \<not> strict_eq logMode (field existingConfig (Name ''logMode''))
          then
            (if strict_eq logMode (JStr ''single'') then
               (case get_prop newConfig (Name ''endpoint'') of
                  Inl e \<Rightarrow> Inl e
                | Inr endpoint \<Rightarrow>
                    Inr (spread (spread (spread [] existingConfig) (own_props newConfig))
                           [(Name ''endpoint'',
                             or_else endpoint (field DEFAULT_CONFIG (Name ''endpoint'')))]))
             else
               (case get_prop newConfig (Name ''endpointParams'') of
                  Inl e \<Rightarrow> Inl e
                | Inr endpointParams \<Rightarrow>
                    Inr (spread (spread (spread [] existingConfig) (own_props newConfig))
                           [(Name ''endpointParams'', or_else endpointParams (JArr [] []))])))
          else if strict_eq (field existingConfig (Name ''logMode'')) (JStr ''multiple'')
                  \<and> \<not> strict_eq logMode (JStr ''single'')
          then
            (case iterate (field existingConfig (Name ''endpointParams'')) of
               Inl e \<Rightarrow> Inl e
             | Inr old \<Rightarrow>
                 (case get_prop newConfig (Name ''endpointParams'') of
                    Inl e \<Rightarrow> Inl e
                  | Inr endpointParams \<Rightarrow>
                      (case iterate (or_else endpointParams (JArr [] [])) of
                         Inl e \<Rightarrow> Inl e
                       | Inr new \<Rightarrow>
                           Inr (spread (spread (spread [] existingConfig) (own_props newConfig))
                                  [(Name ''endpointParams'', JArr (old @ new) [])]))))
          else
            Inr (spread (spread (spread [] existingConfig) (own_props newConfig)) []))"

text \<open>The state of the service is the static field \<open>ConfigService.config\<close>.
  \<open>setConfig\<close> returns the error it throws, or nothing, and the state it leaves.\<close>

definition getConfig :: "props \<Rightarrow> props" where
  "getConfig config = config"

definition setConfig :: "jsval \<Rightarrow> props \<Rightarrow> (error + unit) \<times> props" where
  "setConfig newConfig config =
     (case validateConfig newConfig of
        Inl e \<Rightarrow> (Inl e, config)
      | Inr isValid \<Rightarrow>
          if \<not> isValid then (Inl InvalidConfig, config)
          else
            (case mergeConfig config newConfig of
               Inl e \<Rightarrow> (Inl e, config)
             | Inr merged \<Rightarrow> (Inr (), merged)))"

section \<open>interfaces/log-path.interface.ts\<close>

text \<open>An optional field is an \<open>option\<close>. \<open>ProcessContext\<close> is built in the decorator as
  \<open>{ processId }\<close> or \<open>{ processId, parentId }\<close>; \<open>LogData\<close> has both fields and is written
  as its extension. Log levels are the strings they are at run time.\<close>

record LogPathOptions =
  isTopLevel :: "bool option"
  logInputs :: "bool option"
  isSensitive :: "bool option"
  logLevel :: "string option"

record ProcessContext =
  processId :: string
  parentId :: "string option"

datatype action = Enter | Error | Exit

record LogData = ProcessContext +
  logLevel :: string
  className :: string
  methodName :: string
  action :: action
  timestamp :: int
  message :: string
  error :: "string option"
  args :: "jsval list option"

section \<open>The decorator (LogPath, message, logEntry, logExit, logError, sendLog)\<close>

text \<open>What the platform supplies. \<open>tick\<close> is the clock as the two reads of one log call
  see it: \<open>Date.now()\<close> and \<open>new Date().toISOString()\<close>. An effect is a line written by
  \<open>console.log\<close> or a request to a host with a record as its body. A thrown value is an
  \<open>Error\<close> with its message, or any other value with the text \<open>String(e)\<close> gives it. The
  wrapped method returns a value that is not a \<open>Promise\<close>, throws, or returns a \<open>Promise\<close>
  that settles later.\<close>

record tick =
  date_now :: int
  date_iso :: string

datatype effect = ConsoleLog string | HttpsRequest string LogData

datatype thrown = ErrorInstance string | NotAnError string

datatype settlement = Fulfilled jsval | Rejected thrown

datatype result = Returned jsval | Raised thrown | Promised

text \<open>The state the decorator runs in: the configuration held by \<open>ConfigService\<close>, the
  \<open>contexts\<close> map keyed by the identity of the receiver \<open>this\<close> (an object, as a method
  invoked on an instance has it), the source of \<open>uuidv4()\<close> with the number of identifiers
  drawn so far, the clock, and the effects produced so far.\<close>

record world =
  store :: props
  contexts :: "nat \<Rightarrow> ProcessContext option"
  entropy :: "nat \<Rightarrow> string"
  drawn :: nat
  now :: tick
  trace :: "effect list"

text \<open>A call of the wrapped descriptor returns, throws, or returns the promise
  \<open>result.then(...).catch(...).finally(...)\<close>, which is kept as what its handlers do to the
  state once the promise of the wrapped method settles.\<close>

datatype outcome =
    Return jsval
  | Throw thrown
  | Promise "settlement \<Rightarrow> world \<Rightarrow> settlement \<times> world"

definition uuidv4 :: "world \<Rightarrow> string \<times> world" where
  "uuidv4 w = (entropy w (drawn w), w\<lparr>drawn := Suc (drawn w)\<rparr>)"

text \<open>An optional boolean in a condition (\<open>options.isTopLevel\<close>,
  \<open>options.isSensitive || false\<close>).\<close>

definition flag :: "bool option \<Rightarrow> bool" where
  "flag b = (b = Some True)"

text \<open>\<open>message\<close> (named \<open>message_of\<close>, since \<open>message\<close> is the field of \<open>LogData\<close>); its first
  argument is the text of \<open>new Date().toISOString()\<close>. \<open>parentId ? ... : ...\<close> is false for
  a missing and for an empty parent.\<close>

fun action_text :: "action \<Rightarrow> string" where
  "action_text Enter = ''Enter''"
| "action_text Error = ''Error''"
| "action_text Exit = ''Exit''"

definition message_of ::
  "string \<Rightarrow> string \<Rightarrow> string \<Rightarrow> string \<Rightarrow> string \<Rightarrow> action \<Rightarrow> string option \<Rightarrow> string" where
  "message_of stamp level pid cls meth act parent =
     (case parent of
        Some par \<Rightarrow>
          if par \<noteq> [] then
            stamp @ '' ['' @ level @ '': '' @ par @ '' > '' @ pid @ '']: ''
              @ action_text act @ '' '' @ cls @ ''.'' @ meth
          else
            stamp @ '' ['' @ level @ '': '' @ pid @ '']: ''
              @ action_text act @ '' '' @ cls @ ''.'' @ meth
      | None \<Rightarrow>
          stamp @ '' ['' @ level @ '': '' @ pid @ '']: ''
            @ action_text act @ '' '' @ cls @ ''.'' @ meth)"

text \<open>\<open>sendLog\<close>: in \<open>devMode\<close> one console line, the message with the arguments appended
  when there are any (the source also stores that text in \<open>logData.message\<close>, in a record
  nobody reads afterwards). Otherwise the function ends: the block that posted the record
  to the endpoints is commented out, and so is the import of \<open>https\<close>.\<close>

definition sendLog :: "(jsval list \<Rightarrow> string) \<Rightarrow> props \<Rightarrow> LogData \<Rightarrow> string \<Rightarrow> effect list" where
  "sendLog stringify config logData level =
     (if truthy (field config (Name ''devMode'')) then
        [ConsoleLog
           (case args logData of
              Some a \<Rightarrow>
                if a \<noteq> [] then message logData @ '' with args '' @ stringify a
                else message logData
            | None \<Rightarrow> message logData)]
      else [])"

text \<open>\<open>logEntry\<close>, \<open>logExit\<close> and \<open>logError\<close> build \<open>logData\<close> and pass it to \<open>sendLog\<close>;
  \<open>entryData\<close>, \<open>exitData\<close> and \<open>errorData\<close> are the records they build.\<close>

definition entryData ::
  "tick \<Rightarrow> ProcessContext \<Rightarrow> string \<Rightarrow> string \<Rightarrow> jsval list \<Rightarrow> string \<Rightarrow> bool \<Rightarrow> LogData" where
  "entryData t context cls meth argv level sensitive =
     (let logData =
        \<lparr>processId = processId context,
         parentId = parentId context,
         LogData.logLevel = level,
         className = cls,
         methodName = meth,
         action = Enter,
         timestamp = date_now t,
         message = message_of (date_iso t) level (processId context) cls meth Enter (parentId context),
         error = None,
         args = None\<rparr>
      in if \<not> sensitive then logData\<lparr>args := Some argv\<rparr> else logData)"

definition logEntry ::
  "(jsval list \<Rightarrow> string) \<Rightarrow> tick \<Rightarrow> props \<Rightarrow> ProcessContext \<Rightarrow> string \<Rightarrow> string \<Rightarrow> jsval list
     \<Rightarrow> string \<Rightarrow> bool \<Rightarrow> effect list" where
  "logEntry stringify t config context cls meth argv level sensitive =
     sendLog stringify config (entryData t context cls meth argv level sensitive) level"

definition exitData :: "tick \<Rightarrow> ProcessContext \<Rightarrow> string \<Rightarrow> string \<Rightarrow> string \<Rightarrow> LogData" where
  "exitData t context cls meth level =
     \<lparr>processId = processId context,
      parentId = parentId context,
      LogData.logLevel = level,
      className = cls,
      methodName = meth,
      action = Exit,
      timestamp = date_now t,
      message = message_of (date_iso t) level (processId context) cls meth Exit (parentId context),
      error = None,
      args = None\<rparr>"

definition logExit ::
  "(jsval list \<Rightarrow> string) \<Rightarrow> tick \<Rightarrow> props \<Rightarrow> ProcessContext \<Rightarrow> string \<Rightarrow> string \<Rightarrow> string
     \<Rightarrow> effect list" where
  "logExit stringify t config context cls meth level =
     sendLog stringify config (exitData t context cls meth level) level"

fun error_text :: "thrown \<Rightarrow> string" where
  "error_text (ErrorInstance msg) = msg"
| "error_text (NotAnError txt) = txt"

definition errorData :: "tick \<Rightarrow> ProcessContext \<Rightarrow> string \<Rightarrow> string \<Rightarrow> thrown \<Rightarrow> LogData" where
  "errorData t context cls meth e =
     \<lparr>processId = processId context,
      parentId = parentId context,
      LogData.logLevel = ''error'',
      className = cls,
      methodName = meth,
      action = Error,
      timestamp = date_now t,
      message = message_of (date_iso t) ''error'' (processId context) cls meth Enter (parentId context),
      error = Some (error_text e),
      args = None\<rparr>"

definition logError ::
  "(jsval list \<Rightarrow> string) \<Rightarrow> tick \<Rightarrow> props \<Rightarrow> ProcessContext \<Rightarrow> string \<Rightarrow> string \<Rightarrow> thrown
     \<Rightarrow> effect list" where
  "logError stringify t config context cls meth e =
     sendLog stringify config (errorData t context cls meth e) ''error''"

text \<open>The body of \<open>descriptor.value\<close>. \<open>acquire\<close> is its first statement, the three-way
  choice of the context; \<open>delete_context\<close> is \<open>if (options.isTopLevel) contexts.delete(this)\<close>;
  \<open>settle\<close> is the chain of \<open>then\<close>, \<open>catch\<close> and \<open>finally\<close> handlers. An exception of the
  wrapped method leaves \<open>descriptor.value\<close> at once: no handler surrounds the call.\<close>

definition emit :: "effect list \<Rightarrow> world \<Rightarrow> world" where
  "emit es w = w\<lparr>trace := trace w @ es\<rparr>"

definition acquire :: "LogPathOptions \<Rightarrow> nat \<Rightarrow> world \<Rightarrow> ProcessContext \<times> world" where
  "acquire options this w =
     (if flag (isTopLevel options) then
        (let (uuid, w1) = uuidv4 w in (\<lparr>processId = uuid, parentId = None\<rparr>, w1))
      else
        (case contexts w this of
           None \<Rightarrow>
             (let (uuid, w1) = uuidv4 w;
                  context = \<lparr>processId = uuid, parentId = None\<rparr>
              in (context, w1\<lparr>contexts := (contexts w1)(this \<mapsto> context)\<rparr>))
         | Some existingContext \<Rightarrow>
             (let (uuid, w1) = uuidv4 w;
                  context = \<lparr>processId = uuid, parentId = Some (processId existingContext)\<rparr>
              in (context, w1\<lparr>contexts := (contexts w1)(this \<mapsto> context)\<rparr>))))"

definition delete_context :: "LogPathOptions \<Rightarrow> nat \<Rightarrow> world \<Rightarrow> world" where
  "delete_context options this w =
     (if flag (isTopLevel options) then w\<lparr>contexts := (contexts w)(this := None)\<rparr> else w)"

definition settle ::
  "(jsval list \<Rightarrow> string) \<Rightarrow> LogPathOptions \<Rightarrow> string \<Rightarrow> string \<Rightarrow> nat \<Rightarrow> props \<Rightarrow> ProcessContext
     \<Rightarrow> string \<Rightarrow> settlement \<Rightarrow> world \<Rightarrow> settlement \<times> world" where
  "settle stringify options cls meth this config context level s w =
     (case s of
        Fulfilled v \<Rightarrow>
          (Fulfilled v,
           delete_context options this
             (emit (logExit stringify (now w) config context cls meth level) w))
      | Rejected e \<Rightarrow>
          (Rejected e,
           delete_context options this
             (emit (logError stringify (now w) config context cls meth e) w)))"

definition LogPath ::
  "(jsval list \<Rightarrow> string) \<Rightarrow> LogPathOptions \<Rightarrow> string \<Rightarrow> string
     \<Rightarrow> (nat \<Rightarrow> jsval list \<Rightarrow> world \<Rightarrow> result \<times> world)
     \<Rightarrow> nat \<Rightarrow> jsval list \<Rightarrow> world \<Rightarrow> outcome \<times> world" where
  "LogPath stringify options cls propertyKey originalMethod this argv w =
     (let config = getConfig (store w);
          (context, w1) = acquire options this w;
          level = (case LogPathOptions.logLevel options of
                     Some l \<Rightarrow> if l \<noteq> [] then l else ''info''
                   | None \<Rightarrow> ''info'');
          w2 = emit (logEntry stringify (now w1) config context cls propertyKey argv level
                       (flag (isSensitive options))) w1;
          (res, w3) = originalMethod this argv w2
      in case res of
           Promised \<Rightarrow>
             (Promise (settle stringify options cls propertyKey this config context level), w3)
         | Raised e \<Rightarrow> (Throw e, w3)
         | Returned v \<Rightarrow>
             (Return v,
              delete_context options this
                (emit (logExit stringify (now w3) config context cls propertyKey level) w3)))"

section \<open>Vocabulary of the properties\<close>

text \<open>Reading a property where nothing is thrown: a property of \<open>undefined\<close> or \<open>null\<close>
  counts as absent.\<close>

definition peek :: "jsval \<Rightarrow> key \<Rightarrow> jsval" where
  "peek v k = (case get_prop v k of Inl e \<Rightarrow> JUndefined | Inr x \<Rightarrow> x)"

text \<open>An element of \<open>endpointParams\<close> with an unrecognized log level or an endpoint that
  is not a string.\<close>

definition bad_param :: "jsval \<Rightarrow> bool" where
  "bad_param x =
     (\<not> isValidLogLevel (peek x (Name ''logLevel'')) \<or> \<not> is_string (peek x (Name ''endpoint'')))"

text \<open>The invalid partial configurations: \<open>devMode\<close> absent or not boolean; \<open>logMode\<close>
  absent or not one of the two modes; single mode with an endpoint that is not a string;
  multiple mode with \<open>endpointParams\<close> that holds a bad element or is no array at all.\<close>

definition invalid_partial :: "jsval \<Rightarrow> bool" where
  "invalid_partial p =
     (\<not> is_boolean (peek p (Name ''devMode''))
      \<or> peek p (Name ''logMode'') \<notin> set [JStr ''single'', JStr ''multiple'']
      \<or> (peek p (Name ''logMode'') = JStr ''single'' \<and> \<not> is_string (peek p (Name ''endpoint'')))
      \<or> (peek p (Name ''logMode'') = JStr ''multiple''
          \<and> (case peek p (Name ''endpointParams'') of
                JArr xs qs \<Rightarrow> list_ex bad_param xs
              | _ \<Rightarrow> True)))"

text \<open>A finite sequence of \<open>setConfig\<close> calls, each one caught or not, and the state it
  leaves.\<close>

fun setConfigs :: "jsval list \<Rightarrow> props \<Rightarrow> props" where
  "setConfigs [] config = config"
| "setConfigs (p # ps) config = setConfigs ps (snd (setConfig p config))"

definition single_store :: "props \<Rightarrow> bool" where
  "single_store config =
     (field config (Name ''logMode'') = JStr ''single''
      \<and> is_string (field config (Name ''endpoint'')))"

subsection \<open>Inputs of the examples\<close>

text \<open>The two configurations of the README, the second one once as the plain object
  the README passes and once as an array that carries the same three properties, and
  entries for \<open>endpointParams\<close>.\<close>

definition single_config :: jsval where
  "single_config =
     JObj
       [(Name ''devMode'', JBool False),
        (Name ''logMode'', JStr ''single''),
        (Name ''endpoint'', JStr ''https://logs.example.com'')]"

definition param :: "string \<Rightarrow> string \<Rightarrow> jsval" where
  "param level endpoint = JObj [(Name ''logLevel'', JStr level), (Name ''endpoint'', JStr endpoint)]"

definition multiple_props :: "jsval list \<Rightarrow> props" where
  "multiple_props params =
     [(Name ''devMode'', JBool False),
      (Name ''logMode'', JStr ''multiple''),
      (Name ''endpointParams'', JArr params [])]"

definition object_config :: jsval where
  "object_config =
     JObj (multiple_props [param ''error'' ''https://error-logs.example.com'',
                           param ''info'' ''https://info-logs.example.com''])"

definition array_config :: "jsval list \<Rightarrow> jsval" where
  "array_config params = JArr [] (multiple_props params)"

text \<open>The store with \<open>logMode\<close> \<open>'multiple'\<close> and two entries: what one accepted
  \<open>setConfig\<close> call leaves from the default configuration.\<close>

definition multiple_store :: props where
  "multiple_store =
     snd (setConfig (array_config [param ''error'' ''a'', param ''info'' ''b'']) DEFAULT_CONFIG)"

definition production_single :: props where
  "production_single =
     [(Name ''devMode'', JBool False),
      (Name ''logMode'', JStr ''single''),
      (Name ''endpoint'', JStr ''https://logs.example.com'')]"

definition production_multiple :: props where
  "production_multiple =
     multiple_props [param ''error'' ''https://error-logs.example.com'',
                     param ''info'' ''https://info-logs.example.com'']"

text \<open>A state with an empty registry, and a class \<open>Service\<close> whose method \<open>login\<close> returns
  at once and whose top-level method \<open>run\<close> calls its method \<open>step\<close> on the same receiver
  and then throws.\<close>

definition demo_world :: world where
  "demo_world =
     \<lparr>store = DEFAULT_CONFIG,
      contexts = (\<lambda>owner. None),
      entropy = (\<lambda>n. if n = 0 then ''uuid-a'' else if n = 1 then ''uuid-b'' else ''uuid-c''),
      drawn = 0,
      now = \<lparr>date_now = 0, date_iso = ''1970-01-01T00:00:00.000Z''\<rparr>,
      trace = []\<rparr>"

definition no_options :: LogPathOptions where
  "no_options =
     \<lparr>isTopLevel = None, logInputs = None, isSensitive = None, LogPathOptions.logLevel = None\<rparr>"

definition top_level_options :: LogPathOptions where
  "top_level_options =
     \<lparr>isTopLevel = Some True, logInputs = None, isSensitive = None,
      LogPathOptions.logLevel = None\<rparr>"

definition sensitive_options :: LogPathOptions where
  "sensitive_options =
     \<lparr>isTopLevel = None, logInputs = None, isSensitive = Some True,
      LogPathOptions.logLevel = None\<rparr>"

definition login_method :: "nat \<Rightarrow> jsval list \<Rightarrow> world \<Rightarrow> result \<times> world" where
  "login_method this argv w = (Returned (JBool True), w)"

definition step_method :: "nat \<Rightarrow> jsval list \<Rightarrow> world \<Rightarrow> result \<times> world" where
  "step_method this argv w = (Returned JUndefined, w)"

definition run_method ::
  "(jsval list \<Rightarrow> string) \<Rightarrow> nat \<Rightarrow> jsval list \<Rightarrow> world \<Rightarrow> result \<times> world" where
  "run_method stringify this argv w =
     (Raised (ErrorInstance ''failed''),
      snd (LogPath stringify no_options ''Service'' ''step'' step_method this [] w))"

section \<open>Property lists under spread\<close>

lemma distinct_spread:
  "distinct (map fst acc) \<Longrightarrow> distinct (map fst (spread acc ps))"
  unfolding spread_def
  by (induction ps arbitrary: acc) (auto simp: distinct_update)

lemma map_of_rev_distinct:
  "distinct (map fst ps) \<Longrightarrow> map_of (rev ps) = map_of ps"
  by (rule map_of_inject_set [THEN iffD2]) (auto simp: rev_map [symmetric])

lemma map_of_spread:
  "distinct (map fst acc) \<Longrightarrow> map_of (spread acc ps) = map_of acc ++ map_of (rev ps)"
  unfolding spread_def
proof (induction ps arbitrary: acc)
  case Nil
  then show ?case by simp
next
  case (Cons a ps)
  obtain k v where a: "a = (k, v)" by (cases a)
  have d: "distinct (map fst (AList.update k v acc))"
    using Cons.prems by (simp add: distinct_update)
  show ?case
    using Cons.IH [OF d]
    by (simp add: a update_conv' fun_eq_iff map_add_def split: option.splits)
qed

lemma field_spread:
  "distinct (map fst acc) \<Longrightarrow>
   field (spread acc ps) k = (case map_of (rev ps) k of Some v \<Rightarrow> v | None \<Rightarrow> field acc k)"
  by (simp add: field_def map_of_rev_distinct distinct_spread map_of_spread map_add_def
      split: option.splits)

text \<open>A property of \<open>{...c, ...ps, ...qs}\<close> comes from the last of the three that has
  it.\<close>

lemma field_merged:
  "field (spread (spread (spread [] c) ps) qs) k =
     (case map_of (rev qs) k of
        Some v \<Rightarrow> v
      | None \<Rightarrow> (case map_of (rev ps) k of Some v \<Rightarrow> v | None \<Rightarrow> field c k))"
proof -
  have e: "field (spread [] c) k = field c k"
    by (simp add: field_spread) (simp add: field_def split: option.splits)
  have f: "field (spread (spread [] c) ps) k =
      (case map_of (rev ps) k of Some v \<Rightarrow> v | None \<Rightarrow> field c k)"
    by (simp add: field_spread distinct_spread e cong: option.case_cong)
  show ?thesis
    by (simp add: field_spread distinct_spread f cong: option.case_cong)
qed

lemma get_prop_total: "v \<noteq> JUndefined \<Longrightarrow> v \<noteq> JNull \<Longrightarrow> get_prop v k = Inr (peek v k)"
  by (cases v) (auto simp: peek_def)

lemma get_prop_field:
  "get_prop p (Name n) = Inr x \<Longrightarrow> n \<noteq> ''length'' \<Longrightarrow> field (own_props p) (Name n) = x"
  by (cases p) (auto split: if_splits)

lemma field_own_props:
  "field (own_props p) k = x \<Longrightarrow> x \<noteq> JUndefined \<Longrightarrow> map_of (rev (own_props p)) k = Some x"
  by (auto simp: field_def split: option.splits)

section \<open>The configuration service\<close>

lemma valid_param_good: "valid_param x = Inr True \<Longrightarrow> \<not> bad_param x"
  by (auto simp: valid_param_def bad_param_def peek_def split: sum.splits)

lemma every_param_good: "every_param xs = Inr True \<Longrightarrow> \<not> list_ex bad_param xs"
  by (induction xs) (auto split: sum.splits if_splits dest: valid_param_good)

lemma validateConfig_accepts:
  assumes "validateConfig p = Inr True"
  shows "\<not> invalid_partial p"
proof -
  have nn: "p \<noteq> JUndefined" "p \<noteq> JNull"
    using assms by (auto simp: validateConfig_def)
  note g = get_prop_total [OF nn]
  show ?thesis
    using assms
    by (auto simp: validateConfig_def g invalid_partial_def split: if_splits jsval.splits
        dest: every_param_good)
qed

lemma setConfig_rejects:
  "validateConfig p \<noteq> Inr True \<Longrightarrow> \<exists>e. setConfig p config = (Inl e, config)"
  by (cases "validateConfig p") (auto simp: setConfig_def)

lemma setConfig_accepted:
  "validateConfig p = Inr True \<Longrightarrow> mergeConfig config p = Inr c \<Longrightarrow>
   setConfig p config = (Inr (), c)"
  by (simp add: setConfig_def)

text \<open>Whatever \<open>setConfig\<close> throws, the assignment to \<open>ConfigService.config\<close> has not
  happened.\<close>

lemma setConfig_error_keeps:
  "fst (setConfig p config) = Inl e \<Longrightarrow> snd (setConfig p config) = config"
  by (auto simp: setConfig_def split: sum.splits if_splits)

text \<open>
  C1. A partial configuration that is not an array and has a boolean \<open>devMode\<close>, \<open>logMode\<close>
  \<open>'multiple'\<close> and an array \<open>endpointParams\<close> fails validation: \<open>validateConfig\<close> returns
  false at \<open>Array.isArray(cfg)\<close>, \<open>setConfig\<close> throws its error, and \<open>getConfig\<close> returns what
  it returned before.
\<close>

theorem multiple_object_rejected:
  assumes "\<not> isArray p"
    and "get_prop p (Name ''devMode'') = Inr (JBool b)"
    and "get_prop p (Name ''logMode'') = Inr (JStr ''multiple'')"
    and "get_prop p (Name ''endpointParams'') = Inr (JArr xs qs)"
  shows "validateConfig p = Inr False
     \<and> fst (setConfig p config) = Inl InvalidConfig
     \<and> getConfig (snd (setConfig p config)) = getConfig config"
  using assms by (simp add: validateConfig_def setConfig_def getConfig_def)

theorem multiple_object_rejected_witness:
  "\<not> isArray object_config
   \<and> get_prop object_config (Name ''devMode'') = Inr (JBool False)
   \<and> get_prop object_config (Name ''logMode'') = Inr (JStr ''multiple'')
   \<and> validateConfig object_config = Inr False
   \<and> fst (setConfig object_config DEFAULT_CONFIG) = Inl InvalidConfig
   \<and> getConfig (snd (setConfig object_config DEFAULT_CONFIG)) = getConfig DEFAULT_CONFIG"
  using multiple_object_rejected [of object_config False
      "[param ''error'' ''https://error-logs.example.com'',
        param ''info'' ''https://info-logs.example.com'']" "[]" DEFAULT_CONFIG]
  by (simp add: object_config_def multiple_props_def field_def)

text \<open>
  C2. For every invalid partial configuration (\<open>devMode\<close> absent or not boolean, \<open>logMode\<close>
  absent or not one of \<open>'single'\<close> and \<open>'multiple'\<close>, single mode with an endpoint that is not
  a string, multiple mode with an element of \<open>endpointParams\<close> that has an unrecognized log
  level or an endpoint that is not a string, or with no array there) \<open>setConfig\<close> throws, and
  \<open>getConfig\<close> returns exactly what it returned before the call.
\<close>

theorem invalid_config_rejected:
  "invalid_partial p \<Longrightarrow>
   (\<exists>e. fst (setConfig p config) = Inl e)
   \<and> getConfig (snd (setConfig p config)) = getConfig config"
proof -
  assume "invalid_partial p"
  then have "validateConfig p \<noteq> Inr True"
    using validateConfig_accepts by blast
  then obtain e where "setConfig p config = (Inl e, config)"
    using setConfig_rejects by blast
  then show ?thesis by (simp add: getConfig_def)
qed

theorem invalid_config_rejected_witness:
  "invalid_partial (JObj [(Name ''devMode'', JStr ''yes''), (Name ''logMode'', JStr ''single'')])
   \<and> invalid_partial (JObj [(Name ''devMode'', JBool True), (Name ''logMode'', JStr ''both'')])
   \<and> invalid_partial (JObj [(Name ''devMode'', JBool True), (Name ''logMode'', JStr ''single'')])
   \<and> invalid_partial (array_config [param ''error'' ''https://e.example.com'', param ''fatal'' ''x''])
   \<and> (\<exists>e. fst (setConfig (JObj [(Name ''devMode'', JStr ''yes''), (Name ''logMode'', JStr ''single'')])
               DEFAULT_CONFIG) = Inl e)
   \<and> (\<exists>e. fst (setConfig (JObj [(Name ''devMode'', JBool True), (Name ''logMode'', JStr ''both'')])
               DEFAULT_CONFIG) = Inl e)
   \<and> (\<exists>e. fst (setConfig (JObj [(Name ''devMode'', JBool True), (Name ''logMode'', JStr ''single'')])
               DEFAULT_CONFIG) = Inl e)
   \<and> (\<exists>e. fst (setConfig (array_config [param ''error'' ''https://e.example.com'', param ''fatal'' ''x''])
               DEFAULT_CONFIG) = Inl e)
   \<and> getConfig (snd (setConfig (array_config [param ''error'' ''https://e.example.com'', param ''fatal'' ''x''])
               DEFAULT_CONFIG)) = getConfig DEFAULT_CONFIG"
proof -
  have i1: "invalid_partial (JObj [(Name ''devMode'', JStr ''yes''), (Name ''logMode'', JStr ''single'')])"
    by (simp add: invalid_partial_def peek_def field_def)
  have i2: "invalid_partial (JObj [(Name ''devMode'', JBool True), (Name ''logMode'', JStr ''both'')])"
    by (simp add: invalid_partial_def peek_def field_def)
  have i3: "invalid_partial (JObj [(Name ''devMode'', JBool True), (Name ''logMode'', JStr ''single'')])"
    by (simp add: invalid_partial_def peek_def field_def)
  have i4: "invalid_partial (array_config [param ''error'' ''https://e.example.com'', param ''fatal'' ''x''])"
    by (simp add: invalid_partial_def peek_def field_def array_config_def multiple_props_def
        param_def bad_param_def LogLevel_def)
  show ?thesis
    using i1 i2 i3 i4
      invalid_config_rejected [OF i1, of DEFAULT_CONFIG]
      invalid_config_rejected [OF i2, of DEFAULT_CONFIG]
      invalid_config_rejected [OF i3, of DEFAULT_CONFIG]
      invalid_config_rejected [OF i4, of DEFAULT_CONFIG]
    by blast
qed

subsection \<open>Merging\<close>

lemma merge_same_mode_appends:
  assumes "field config (Name ''logMode'') = JStr ''multiple''"
    and "field config (Name ''endpointParams'') = JArr old qs"
    and "get_prop p (Name ''logMode'') = Inr (JStr ''multiple'')"
    and "get_prop p (Name ''endpointParams'') = Inr (JArr new rs)"
  shows "\<exists>c. mergeConfig config p = Inr c
           \<and> field c (Name ''endpointParams'') = JArr (old @ new) []"
  using assms by (simp add: mergeConfig_def or_else_def field_merged)

lemma merge_to_single:
  assumes "field config (Name ''logMode'') = JStr ''multiple''"
    and "get_prop s (Name ''logMode'') = Inr (JStr ''single'')"
  shows "\<exists>c. mergeConfig config s = Inr c \<and> field c (Name ''logMode'') = JStr ''single''"
proof -
  have nn: "s \<noteq> JUndefined" "s \<noteq> JNull" using assms(2) by auto
  have m: "map_of (rev (own_props s)) (Name ''logMode'') = Some (JStr ''single'')"
    using get_prop_field [OF assms(2)] by (simp add: field_own_props)
  show ?thesis
    using assms m by (simp add: mergeConfig_def get_prop_total [OF nn] field_merged)
qed

lemma merge_to_multiple:
  assumes "field config (Name ''logMode'') = JStr ''single''"
    and "get_prop p (Name ''logMode'') = Inr (JStr ''multiple'')"
    and "get_prop p (Name ''endpointParams'') = Inr (JArr new rs)"
  shows "\<exists>c. mergeConfig config p = Inr c \<and> field c (Name ''endpointParams'') = JArr new rs"
  using assms by (simp add: mergeConfig_def or_else_def field_merged)

text \<open>What \<open>mergeConfig\<close> does once \<open>validateConfig\<close> has accepted the partial: on a store
  with \<open>logMode\<close> \<open>'multiple'\<close> and \<open>endpointParams\<close> \<open>[A, B]\<close>, an accepted multiple-mode
  partial with \<open>[C]\<close> leaves \<open>[A, B, C]\<close>, and an accepted single-mode partial followed by it
  leaves \<open>[C]\<close>. In multiple mode the accepted partials are arrays that carry the
  properties.\<close>

lemma accepted_partials_accumulate_and_reset:
  assumes "field config (Name ''logMode'') = JStr ''multiple''"
    and "field config (Name ''endpointParams'') = JArr [A, B] qs"
    and "validateConfig p = Inr True"
    and "get_prop p (Name ''logMode'') = Inr (JStr ''multiple'')"
    and "get_prop p (Name ''endpointParams'') = Inr (JArr [C] rs)"
    and "validateConfig s = Inr True"
    and "get_prop s (Name ''logMode'') = Inr (JStr ''single'')"
  shows "fst (setConfig p config) = Inr ()
     \<and> field (getConfig (snd (setConfig p config))) (Name ''endpointParams'') = JArr [A, B, C] []
     \<and> fst (setConfig s config) = Inr ()
     \<and> fst (setConfig p (snd (setConfig s config))) = Inr ()
     \<and> field (getConfig (snd (setConfig p (snd (setConfig s config))))) (Name ''endpointParams'')
         = JArr [C] rs"
proof -
  obtain c where c: "mergeConfig config p = Inr c"
      "field c (Name ''endpointParams'') = JArr ([A, B] @ [C]) []"
    using merge_same_mode_appends [OF assms(1,2,4,5)] by blast
  obtain c1 where c1: "mergeConfig config s = Inr c1" "field c1 (Name ''logMode'') = JStr ''single''"
    using merge_to_single [OF assms(1,7)] by blast
  obtain c2 where c2: "mergeConfig c1 p = Inr c2" "field c2 (Name ''endpointParams'') = JArr [C] rs"
    using merge_to_multiple [OF c1(2) assms(4,5)] by blast
  show ?thesis
    using c c1 c2 assms(3,6) by (simp add: setConfig_accepted getConfig_def)
qed

lemma array_partials_accumulate_and_reset:
  "field (setConfigs [array_config [param ''error'' ''a'', param ''info'' ''b'']] DEFAULT_CONFIG)
       (Name ''logMode'') = JStr ''multiple''
   \<and> validateConfig (array_config [param ''warn'' ''c'']) = Inr True
   \<and> validateConfig single_config = Inr True
   \<and> field (getConfig (setConfigs
         [array_config [param ''error'' ''a'', param ''info'' ''b''],
          array_config [param ''warn'' ''c'']] DEFAULT_CONFIG)) (Name ''endpointParams'')
       = JArr [param ''error'' ''a'', param ''info'' ''b'', param ''warn'' ''c''] []
   \<and> field (getConfig (setConfigs
         [array_config [param ''error'' ''a'', param ''info'' ''b''],
          single_config,
          array_config [param ''warn'' ''c'']] DEFAULT_CONFIG)) (Name ''endpointParams'')
       = JArr [param ''warn'' ''c''] []"
proof -
  let ?c = "setConfigs [array_config [param ''error'' ''a'', param ''info'' ''b'']] DEFAULT_CONFIG"
  let ?p = "array_config [param ''warn'' ''c'']"
  have c: "?c = [(Name ''devMode'', JBool False), (Name ''logMode'', JStr ''multiple''),
                 (Name ''endpoint'', JStr ''http://default-endpoint.com''),
                 (Name ''endpointParams'', JArr [param ''error'' ''a'', param ''info'' ''b''] [])]"
    by (simp add: array_config_def multiple_props_def param_def setConfig_def validateConfig_def
        valid_param_def LogLevel_def mergeConfig_def DEFAULT_CONFIG_def field_def spread_def
        or_else_def)
  have h1: "field ?c (Name ''logMode'') = JStr ''multiple''"
    unfolding c by (simp add: field_def)
  have h2: "field ?c (Name ''endpointParams'') = JArr [param ''error'' ''a'', param ''info'' ''b''] []"
    unfolding c by (simp add: field_def)
  have h3: "validateConfig ?p = Inr True"
    by (simp add: array_config_def multiple_props_def param_def validateConfig_def
        valid_param_def LogLevel_def field_def)
  have h4: "get_prop ?p (Name ''logMode'') = Inr (JStr ''multiple'')"
    by (simp add: array_config_def multiple_props_def field_def)
  have h5: "get_prop ?p (Name ''endpointParams'') = Inr (JArr [param ''warn'' ''c''] [])"
    by (simp add: array_config_def multiple_props_def field_def)
  have h6: "validateConfig single_config = Inr True"
    by (simp add: single_config_def validateConfig_def field_def)
  have h7: "get_prop single_config (Name ''logMode'') = Inr (JStr ''single'')"
    by (simp add: single_config_def field_def)
  show ?thesis
    using accepted_partials_accumulate_and_reset [OF h1 h2 h3 h4 h5 h6 h7] h1 h3 h6 by simp
qed

text \<open>
  C3 does not hold for the multiple-mode partial that the README and the documentation
  of \<open>LogConfig\<close> give, a plain object. The store has \<open>logMode\<close> \<open>'multiple'\<close> and
  \<open>endpointParams\<close> \<open>[A, B]\<close>. \<open>setConfig\<close> with
  \<open>{devMode: false, logMode: 'multiple', endpointParams: [C]}\<close> throws at
  \<open>Array.isArray(cfg)\<close> and leaves \<open>[A, B]\<close>, not \<open>[A, B, C]\<close>. After a set to \<open>'single'\<close> the
  same call throws again: \<open>logMode\<close> stays \<open>'single'\<close> and \<open>endpointParams\<close> is still
  \<open>[A, B]\<close>, not \<open>[C]\<close>.
\<close>

theorem plain_multiple_partial_never_merges:
  "field multiple_store (Name ''logMode'') = JStr ''multiple''
   \<and> field multiple_store (Name ''endpointParams'')
       = JArr [param ''error'' ''a'', param ''info'' ''b''] []
   \<and> setConfig (JObj (multiple_props [param ''warn'' ''c''])) multiple_store
       = (Inl InvalidConfig, multiple_store)
   \<and> field (getConfig (snd (setConfig (JObj (multiple_props [param ''warn'' ''c'']))
          multiple_store))) (Name ''endpointParams'')
       = JArr [param ''error'' ''a'', param ''info'' ''b''] []
   \<and> fst (setConfig single_config multiple_store) = Inr ()
   \<and> fst (setConfig (JObj (multiple_props [param ''warn'' ''c'']))
          (snd (setConfig single_config multiple_store))) = Inl InvalidConfig
   \<and> field (getConfig (setConfigs [single_config, JObj (multiple_props [param ''warn'' ''c''])]
          multiple_store)) (Name ''logMode'') = JStr ''single''
   \<and> field (getConfig (setConfigs [single_config, JObj (multiple_props [param ''warn'' ''c''])]
          multiple_store)) (Name ''endpointParams'')
       = JArr [param ''error'' ''a'', param ''info'' ''b''] []"
  by (simp add: multiple_store_def array_config_def multiple_props_def param_def single_config_def
      setConfig_def validateConfig_def valid_param_def LogLevel_def mergeConfig_def
      DEFAULT_CONFIG_def field_def spread_def or_else_def getConfig_def)

subsection \<open>The reachable states of the store\<close>

lemma single_store_default: "single_store DEFAULT_CONFIG"
  by (simp add: single_store_def DEFAULT_CONFIG_def field_def)

lemma validateConfig_single:
  assumes "validateConfig p = Inr True"
    and "\<not> (isArray p \<and> get_prop p (Name ''logMode'') = Inr (JStr ''multiple''))"
  shows "get_prop p (Name ''logMode'') = Inr (JStr ''single'')
     \<and> (\<exists>e. get_prop p (Name ''endpoint'') = Inr (JStr e))"
proof -
  have nn: "p \<noteq> JUndefined" "p \<noteq> JNull"
    using assms(1) by (auto simp: validateConfig_def)
  note g = get_prop_total [OF nn]
  have "is_string x \<Longrightarrow> \<exists>e. x = JStr e" for x by (cases x) auto
  then show ?thesis
    using assms by (auto simp: validateConfig_def g split: if_splits)
qed

lemma setConfig_keeps_single:
  assumes "single_store config"
    and "\<not> (isArray p \<and> get_prop p (Name ''logMode'') = Inr (JStr ''multiple''))"
  shows "single_store (snd (setConfig p config))"
proof (cases "validateConfig p = Inr True")
  case False
  then show ?thesis
    using assms(1) setConfig_rejects [of p config] by auto
next
  case True
  obtain e where lm: "get_prop p (Name ''logMode'') = Inr (JStr ''single'')"
    and ep: "get_prop p (Name ''endpoint'') = Inr (JStr e)"
    using validateConfig_single [OF True assms(2)] by blast
  have m1: "map_of (rev (own_props p)) (Name ''logMode'') = Some (JStr ''single'')"
    using get_prop_field [OF lm] by (simp add: field_own_props)
  have m2: "map_of (rev (own_props p)) (Name ''endpoint'') = Some (JStr e)"
    using get_prop_field [OF ep] by (simp add: field_own_props)
  have c: "field config (Name ''logMode'') = JStr ''single''"
    using assms(1) by (simp add: single_store_def)
  have "\<exists>c. mergeConfig config p = Inr c \<and> single_store c"
    using lm c m1 m2 by (simp add: mergeConfig_def field_merged single_store_def)
  then show ?thesis
    using True by (auto simp: setConfig_accepted)
qed

lemma setConfigs_keep_single:
  "single_store config \<Longrightarrow>
   \<forall>p\<in>set ps. \<not> (isArray p \<and> get_prop p (Name ''logMode'') = Inr (JStr ''multiple'')) \<Longrightarrow>
   single_store (setConfigs ps config)"
  by (induction ps arbitrary: config) (auto intro: setConfig_keeps_single)

text \<open>
  C10, as stated, fails: an array that carries \<open>devMode\<close>, \<open>logMode: 'multiple'\<close> and
  \<open>endpointParams\<close> passes \<open>Array.isArray(cfg)\<close> and the test of its entries, so one
  \<open>setConfig\<close> call from the default configuration succeeds and installs \<open>logMode\<close>
  \<open>'multiple'\<close>.
\<close>

theorem array_config_installs_multiple:
  "fst (setConfig (array_config [param ''error'' ''https://error-logs.example.com''])
          DEFAULT_CONFIG) = Inr ()
   \<and> field (getConfig (setConfigs
         [array_config [param ''error'' ''https://error-logs.example.com'']] DEFAULT_CONFIG))
       (Name ''logMode'') = JStr ''multiple''
   \<and> \<not> single_store (getConfig (setConfigs
         [array_config [param ''error'' ''https://error-logs.example.com'']] DEFAULT_CONFIG))"
  by (simp add: array_config_def multiple_props_def param_def setConfig_def validateConfig_def
      valid_param_def LogLevel_def mergeConfig_def DEFAULT_CONFIG_def field_def spread_def
      or_else_def getConfig_def single_store_def)

text \<open>
  C10, amended. Starting from the built-in default configuration, after any finite
  sequence of \<open>setConfig\<close> calls, accepted or rejected, none of whose arguments is an array
  with \<open>logMode\<close> \<open>'multiple'\<close>, the configuration \<open>getConfig\<close> returns has \<open>logMode\<close> \<open>'single'\<close>
  and a string \<open>endpoint\<close>.
\<close>

theorem single_store_invariant:
  assumes "\<forall>p\<in>set ps. \<not> (isArray p \<and> get_prop p (Name ''logMode'') = Inr (JStr ''multiple''))"
  shows "single_store (getConfig (setConfigs ps DEFAULT_CONFIG))"
  using setConfigs_keep_single [OF single_store_default assms] by (simp add: getConfig_def)

theorem single_store_invariant_witness:
  "single_store (getConfig (setConfigs [single_config, object_config, JNull] DEFAULT_CONFIG))
   \<and> field (getConfig (setConfigs [single_config, object_config, JNull] DEFAULT_CONFIG))
       (Name ''endpoint'') = JStr ''https://logs.example.com''"
proof -
  have h: "\<forall>p\<in>set [single_config, object_config, JNull].
      \<not> (isArray p \<and> get_prop p (Name ''logMode'') = Inr (JStr ''multiple''))"
    by (simp add: single_config_def object_config_def)
  have e: "field (getConfig (setConfigs [single_config, object_config, JNull] DEFAULT_CONFIG))
       (Name ''endpoint'') = JStr ''https://logs.example.com''"
    by (simp add: single_config_def object_config_def multiple_props_def param_def setConfig_def
        validateConfig_def mergeConfig_def DEFAULT_CONFIG_def field_def spread_def or_else_def
        getConfig_def)
  show ?thesis
    using single_store_invariant [OF h] e by simp
qed

section \<open>The decorator\<close>

text \<open>
  C4. In an invocation that is not top-level, when the registry has an entry for the
  receiver, the context of the invocation has the identifier \<open>uuidv4()\<close> has just returned
  and, as \<open>parentId\<close>, the \<open>processId\<close> of that entry, and it replaces the entry; when the
  registry has no entry for the receiver, the context has the new identifier and no parent,
  and is stored.
\<close>

theorem child_context_links_parent:
  assumes "\<not> flag (isTopLevel options)"
  shows "(contexts w this = Some existing \<longrightarrow>
            fst (acquire options this w)
              = \<lparr>processId = fst (uuidv4 w), parentId = Some (processId existing)\<rparr>
          \<and> contexts (snd (acquire options this w)) this = Some (fst (acquire options this w)))
       \<and> (contexts w this = None \<longrightarrow>
            fst (acquire options this w) = \<lparr>processId = fst (uuidv4 w), parentId = None\<rparr>
          \<and> contexts (snd (acquire options this w)) this = Some (fst (acquire options this w)))"
  using assms by (simp add: acquire_def uuidv4_def Let_def)

theorem child_context_links_parent_witness:
  "\<not> flag (isTopLevel no_options)
   \<and> contexts demo_world 7 = None
   \<and> fst (acquire no_options 7 demo_world) = \<lparr>processId = ''uuid-a'', parentId = None\<rparr>
   \<and> contexts (snd (acquire no_options 7 demo_world)) 7
       = Some \<lparr>processId = ''uuid-a'', parentId = None\<rparr>
   \<and> fst (acquire no_options 7 (snd (acquire no_options 7 demo_world)))
       = \<lparr>processId = ''uuid-b'', parentId = Some ''uuid-a''\<rparr>
   \<and> contexts (snd (acquire no_options 7 (snd (acquire no_options 7 demo_world)))) 7
       = Some \<lparr>processId = ''uuid-b'', parentId = Some ''uuid-a''\<rparr>"
proof -
  let ?w1 = "snd (acquire no_options 7 demo_world)"
  let ?a = "\<lparr>processId = ''uuid-a'', parentId = None\<rparr>"
  have f: "\<not> flag (isTopLevel no_options)"
    by (simp add: no_options_def flag_def)
  have n: "contexts demo_world 7 = None"
    by (simp add: demo_world_def)
  have u1: "fst (uuidv4 demo_world) = ''uuid-a''"
    by (simp add: uuidv4_def demo_world_def)
  have first: "fst (acquire no_options 7 demo_world) = \<lparr>processId = fst (uuidv4 demo_world), parentId = None\<rparr>
      \<and> contexts ?w1 7 = Some (fst (acquire no_options 7 demo_world))"
    using child_context_links_parent [OF f, of demo_world 7] n by blast
  have c1: "fst (acquire no_options 7 demo_world) = ?a"
    using first by (simp only: u1)
  have s1: "contexts ?w1 7 = Some ?a"
    using first by (simp only: c1)
  have u2: "fst (uuidv4 ?w1) = ''uuid-b''"
    by (simp add: acquire_def uuidv4_def demo_world_def no_options_def flag_def Let_def)
  have second: "fst (acquire no_options 7 ?w1)
        = \<lparr>processId = fst (uuidv4 ?w1), parentId = Some (processId ?a)\<rparr>
      \<and> contexts (snd (acquire no_options 7 ?w1)) 7 = Some (fst (acquire no_options 7 ?w1))"
    using child_context_links_parent [OF f, of ?w1 7 ?a] s1 by blast
  have c2: "fst (acquire no_options 7 ?w1) = \<lparr>processId = ''uuid-b'', parentId = Some ''uuid-a''\<rparr>"
    using second by (simp add: u2)
  have s2: "contexts (snd (acquire no_options 7 ?w1)) 7
      = Some \<lparr>processId = ''uuid-b'', parentId = Some ''uuid-a''\<rparr>"
    using second by (simp only: c2)
  show ?thesis
    using f n c1 s1 c2 s2 by blast
qed

text \<open>When a top-level invocation returns a value, and when the promise of a top-level
  invocation settles either way, the entry of the receiver is gone.\<close>

lemma toplevel_return_clears:
  assumes "flag (isTopLevel options)"
    and "fst (LogPath stringify options cls meth originalMethod this argv w) = Return v"
  shows "contexts (snd (LogPath stringify options cls meth originalMethod this argv w)) this = None"
  using assms
  by (auto simp: LogPath_def Let_def delete_context_def emit_def split: prod.splits result.splits)

lemma toplevel_settle_clears:
  assumes "flag (isTopLevel options)"
  shows "contexts (snd (settle stringify options cls meth this config context level s w)) this
           = None"
  using assms by (cases s) (simp_all add: settle_def delete_context_def emit_def)

text \<open>
  C5 does not hold where the wrapped method throws synchronously. The top-level method
  \<open>run\<close> of \<open>Service\<close> calls \<open>step\<close>, an instrumented method that is not top-level, on the same
  receiver and then throws: the exception leaves the wrapper before
  \<open>contexts.delete(this)\<close>, and the entry \<open>step\<close> stored for the receiver is still there
  when the invocation is over.
\<close>

theorem sync_failure_keeps_entry:
  "fst (LogPath stringify top_level_options ''Service'' ''run'' (run_method stringify) 7 []
          demo_world) = Throw (ErrorInstance ''failed'')
   \<and> contexts (snd (LogPath stringify top_level_options ''Service'' ''run'' (run_method stringify)
          7 [] demo_world)) 7
       = Some \<lparr>processId = ''uuid-b'', parentId = None\<rparr>"
  by (simp add: LogPath_def run_method_def step_method_def top_level_options_def no_options_def
      flag_def acquire_def uuidv4_def demo_world_def emit_def delete_context_def Let_def)

text \<open>
  C6 does not hold: with \<open>devMode\<close> false \<open>sendLog\<close> does nothing. In single mode the record
  is not forwarded to the configured endpoint, and in multiple mode it is forwarded to no
  endpoint registered for its log level.
\<close>

theorem production_mode_sends_nothing:
  "sendLog stringify production_single logData level = []
   \<and> HttpsRequest ''https://logs.example.com'' logData
       \<notin> set (sendLog stringify production_single logData level)
   \<and> sendLog stringify production_multiple logData ''error'' = []
   \<and> HttpsRequest ''https://error-logs.example.com'' logData
       \<notin> set (sendLog stringify production_multiple logData ''error'')"
  by (simp add: sendLog_def production_single_def production_multiple_def multiple_props_def
      field_def)

text \<open>The messages of Enter and Exit records name their own action and log level.\<close>

lemma enter_exit_message:
  "message (entryData t context cls meth argv level sensitive)
     = message_of (date_iso t) level (processId context) cls meth Enter (parentId context)
   \<and> action (entryData t context cls meth argv level sensitive) = Enter
   \<and> message (exitData t context cls meth level)
     = message_of (date_iso t) level (processId context) cls meth Exit (parentId context)
   \<and> action (exitData t context cls meth level) = Exit"
  by (simp add: entryData_def exitData_def Let_def)

text \<open>
  C7 does not hold for Error records: \<open>logError\<close> builds the message with the action
  \<open>'Enter'\<close>, so the message of a record whose action is Error reads \<open>Enter\<close>.
\<close>

theorem error_message_says_enter:
  "action (errorData \<lparr>date_now = 0, date_iso = ''1970-01-01T00:00:00.000Z''\<rparr>
             \<lparr>processId = ''uuid-a'', parentId = None\<rparr> ''Service'' ''run''
             (ErrorInstance ''failed'')) = Error
   \<and> message (errorData \<lparr>date_now = 0, date_iso = ''1970-01-01T00:00:00.000Z''\<rparr>
             \<lparr>processId = ''uuid-a'', parentId = None\<rparr> ''Service'' ''run''
             (ErrorInstance ''failed''))
       = ''1970-01-01T00:00:00.000Z [error: uuid-a]: Enter Service.run''
   \<and> message (errorData \<lparr>date_now = 0, date_iso = ''1970-01-01T00:00:00.000Z''\<rparr>
             \<lparr>processId = ''uuid-a'', parentId = None\<rparr> ''Service'' ''run''
             (ErrorInstance ''failed''))
       \<noteq> message_of ''1970-01-01T00:00:00.000Z'' ''error'' ''uuid-a'' ''Service'' ''run'' Error None"
  by (simp add: errorData_def message_of_def)

text \<open>
  C8. Every instrumented call hands its Enter record to \<open>sendLog\<close> and then runs the
  wrapped method in the state that leaves. When the call is configured with \<open>isSensitive\<close>
  true, that record has no \<open>args\<close> field and is the same for any two argument lists, and
  so is the whole call when the wrapped method does not tell the two lists apart; when
  \<open>isSensitive\<close> is false or unset, the \<open>args\<close> field of the record is the argument list of
  the call.
\<close>

theorem sensitive_hides_args:
  "let context = fst (acquire options this w);
       w1 = snd (acquire options this w);
       level = (case LogPathOptions.logLevel options of
                  Some l \<Rightarrow> if l \<noteq> [] then l else ''info''
                | None \<Rightarrow> ''info'');
       enter = (\<lambda>a. entryData (now w1) context cls meth a level (flag (isSensitive options)))
   in LogPath stringify options cls meth originalMethod this argv w
        = (let (res, w3) = originalMethod this argv
                 (emit (sendLog stringify (getConfig (store w)) (enter argv) level) w1)
           in case res of
                Promised \<Rightarrow>
                  (Promise (settle stringify options cls meth this (getConfig (store w)) context level),
                   w3)
              | Raised e \<Rightarrow> (Throw e, w3)
              | Returned v \<Rightarrow>
                  (Return v,
                   delete_context options this
                     (emit (logExit stringify (now w3) (getConfig (store w)) context cls meth level)
                        w3)))
    \<and> action (enter argv) = Enter
    \<and> args (enter argv) = (if flag (isSensitive options) then None else Some argv)
    \<and> (flag (isSensitive options) \<longrightarrow> enter argv = enter argv')
    \<and> (flag (isSensitive options) \<and> originalMethod this argv = originalMethod this argv' \<longrightarrow>
          LogPath stringify options cls meth originalMethod this argv w
            = LogPath stringify options cls meth originalMethod this argv' w)"
  by (simp add: LogPath_def logEntry_def entryData_def Let_def case_prod_beta)

theorem sensitive_hides_args_witness:
  "flag (isSensitive sensitive_options)
   \<and> trace (snd (LogPath (\<lambda>a. ''[secret]'') sensitive_options ''Service'' ''login'' login_method 7
        [JStr ''secret''] demo_world))
       = [ConsoleLog ''1970-01-01T00:00:00.000Z [info: uuid-a]: Enter Service.login'',
          ConsoleLog ''1970-01-01T00:00:00.000Z [info: uuid-a]: Exit Service.login'']
   \<and> \<not> flag (isSensitive no_options)
   \<and> trace (snd (LogPath (\<lambda>a. ''[secret]'') no_options ''Service'' ''login'' login_method 7
        [JStr ''secret''] demo_world))
       = [ConsoleLog ''1970-01-01T00:00:00.000Z [info: uuid-a]: Enter Service.login with args [secret]'',
          ConsoleLog ''1970-01-01T00:00:00.000Z [info: uuid-a]: Exit Service.login'']"
proof -
  have a: "flag (isSensitive sensitive_options)"
    by (simp add: sensitive_options_def flag_def)
  have b: "\<not> flag (isSensitive no_options)"
    by (simp add: no_options_def flag_def)
  have s: "trace (snd (LogPath (\<lambda>a. ''[secret]'') sensitive_options ''Service'' ''login'' login_method 7
        [JStr ''secret''] demo_world))
       = [ConsoleLog ''1970-01-01T00:00:00.000Z [info: uuid-a]: Enter Service.login'',
          ConsoleLog ''1970-01-01T00:00:00.000Z [info: uuid-a]: Exit Service.login'']"
    using sensitive_hides_args [of sensitive_options 7 demo_world "''Service''" "''login''"
        "\<lambda>a. ''[secret]''" login_method "[JStr ''secret'']" "[]"]
    by (simp add: Let_def sensitive_options_def flag_def acquire_def uuidv4_def demo_world_def
        login_method_def emit_def sendLog_def logExit_def exitData_def entryData_def
        message_of_def delete_context_def getConfig_def DEFAULT_CONFIG_def field_def)
  have n: "trace (snd (LogPath (\<lambda>a. ''[secret]'') no_options ''Service'' ''login'' login_method 7
        [JStr ''secret''] demo_world))
       = [ConsoleLog ''1970-01-01T00:00:00.000Z [info: uuid-a]: Enter Service.login with args [secret]'',
          ConsoleLog ''1970-01-01T00:00:00.000Z [info: uuid-a]: Exit Service.login'']"
    using sensitive_hides_args [of no_options 7 demo_world "''Service''" "''login''"
        "\<lambda>a. ''[secret]''" login_method "[JStr ''secret'']" "[]"]
    by (simp add: Let_def no_options_def flag_def acquire_def uuidv4_def demo_world_def
        login_method_def emit_def sendLog_def logExit_def exitData_def entryData_def
        message_of_def delete_context_def getConfig_def DEFAULT_CONFIG_def field_def)
  show ?thesis using a b s n by blast
qed

end
